theory Spec2Isabelle
  imports Main
begin

section \<open>JavaScript values\<close>

text \<open>
  The client is TypeScript; at run time every response body, socket frame and persisted
  entry is a plain JavaScript value. \<open>json\<close> is the value \<open>JSON.parse\<close> returns;
  \<open>undefined\<close> (a missing property) is \<open>None :: json option\<close>. Numbers are
  integers here: the code below only tests them against 0 or copies them.
\<close>

datatype json =
    JNull
  | JBool bool
  | JNum int
  | JStr string
  | JArr "json list"
  | JObj "(string \<times> json) list"

text \<open>JavaScript truthiness: \<open>undefined\<close>, \<open>null\<close>, \<open>false\<close>, \<open>0\<close> and \<open>""\<close> are falsy.\<close>

fun truthy :: "json option \<Rightarrow> bool" where
  "truthy None = False"
| "truthy (Some JNull) = False"
| "truthy (Some (JBool b)) = b"
| "truthy (Some (JNum n)) = (n \<noteq> 0)"
| "truthy (Some (JStr s)) = (s \<noteq> [])"
| "truthy (Some (JArr xs)) = True"
| "truthy (Some (JObj kvs)) = True"

text \<open>\<open>a || b\<close>: the left operand when it is truthy, the right one otherwise.\<close>

definition js_or :: "json option \<Rightarrow> json option \<Rightarrow> json option" where
  "js_or a b = (if truthy a then a else b)"

text \<open>
  \<open>data?.k\<close> for a property name \<open>k\<close> that no prototype defines (\<open>error\<close>,
  \<open>message\<close>): \<open>undefined\<close> on \<open>null\<close>, on a primitive and on an array, the own
  property on an object.
\<close>

fun optional_member :: "json \<Rightarrow> string \<Rightarrow> json option" where
  "optional_member (JObj kvs) k = map_of kvs k"
| "optional_member other k = None"

text \<open>Decimal rendering of a number, as \<open>String(n)\<close> gives for an integer.\<close>

definition digit_char :: "nat \<Rightarrow> char" where
  "digit_char d = ''0123456789'' ! d"

fun nat_to_string :: "nat \<Rightarrow> string" where
  "nat_to_string n =
     (if n < 10 then [digit_char n] else nat_to_string (n div 10) @ [digit_char (n mod 10)])"

text \<open>The equation of \<open>nat_to_string\<close> rewrites itself; it is unfolded by hand.\<close>

declare nat_to_string.simps [simp del]

definition int_to_string :: "int \<Rightarrow> string" where
  "int_to_string i = (if i < 0 then CHR ''-'' # nat_to_string (nat (- i)) else nat_to_string (nat i))"

fun join :: "string \<Rightarrow> string list \<Rightarrow> string" where
  "join sep [] = []"
| "join sep [x] = x"
| "join sep (x # y # ys) = x @ sep @ join sep (y # ys)"

text \<open>
  \<open>ToString\<close>, which the \<open>Error\<close> constructor applies to its message argument: an
  object becomes \<open>[object Object]\<close>, an array the comma-joined rendering of its elements
  (with \<open>null\<close> elements empty).
\<close>

fun ToString :: "json \<Rightarrow> string" where
  "ToString JNull = ''null''"
| "ToString (JBool b) = (if b then ''true'' else ''false'')"
| "ToString (JNum n) = int_to_string n"
| "ToString (JStr s) = s"
| "ToString (JArr xs) = join '','' (map (\<lambda>x. if x = JNull then [] else ToString x) xs)"
| "ToString (JObj kvs) = ''[object Object]''"

text \<open>White space, on ASCII: tab, line feed, vertical tab, form feed, carriage return, space.\<close>

definition is_space :: "char \<Rightarrow> bool" where
  "is_space c = ((of_char c :: nat) \<in> {9, 10, 11, 12, 13, 32})"

text \<open>
  \<open>Number(s)\<close> on a string, in the integer model: white space is trimmed, the empty
  string is 0, and an optional sign followed by decimal digits is that integer (exact
  below \<open>2^53\<close>); \<open>None\<close> is \<open>NaN\<close>. Literals with a fraction, an exponent or
  a radix prefix, and \<open>Infinity\<close>, are numbers in JavaScript and have no value in this
  model: they come out as \<open>None\<close> here, and nothing below is stated about them.
\<close>

definition is_digit :: "char \<Rightarrow> bool" where
  "is_digit c = (c \<in> set ''0123456789'')"

definition digit_value :: "char \<Rightarrow> nat" where
  "digit_value c =
     (case map_of (zip ''0123456789'' [0, 1, 2, 3, 4, 5, 6, 7, 8, 9]) c of
        Some d \<Rightarrow> d
      | None \<Rightarrow> 0)"

definition digits_value :: "string \<Rightarrow> nat" where
  "digits_value ds = foldl (\<lambda>acc c. 10 * acc + digit_value c) 0 ds"

definition trim :: "string \<Rightarrow> string" where
  "trim s = rev (dropWhile is_space (rev (dropWhile is_space s)))"

definition js_Number :: "string \<Rightarrow> int option" where
  "js_Number s =
     (case trim s of
        [] \<Rightarrow> Some 0
      | c # cs \<Rightarrow>
          if c = CHR ''-'' then
            (if cs \<noteq> [] \<and> list_all is_digit cs then Some (- int (digits_value cs)) else None)
          else if c = CHR ''+'' then
            (if cs \<noteq> [] \<and> list_all is_digit cs then Some (int (digits_value cs)) else None)
          else if list_all is_digit (c # cs) then Some (int (digits_value (c # cs)))
          else None)"

section \<open>Remote Data Gateway: \<open>services/api.ts\<close>\<close>

text \<open>
  What \<open>fetch\<close> resolved with: the status line and the outcome of \<open>response.json()\<close>,
  \<open>None\<close> when the body is not JSON (the promise rejects and
  \<open>.catch(() => null)\<close> turns that into \<open>null\<close>). \<open>response.ok\<close> is a status in
  200..299.
\<close>

record http_response =
  status :: nat
  statusText :: string
  json_body :: "json option"

definition response_ok :: "http_response \<Rightarrow> bool" where
  "response_ok response = (200 \<le> status response \<and> status response \<le> 299)"

text \<open>\<open>class ApiError extends Error\<close>: status, statusText and the \<open>Error\<close> message.\<close>

datatype ApiError = ApiError (err_status: nat) (err_statusText: string) (err_message: string)

text \<open>\<open>(data?.error as string) || data?.message || 'An error occurred'\<close>; the cast is erased.\<close>

definition error_message_of :: "json \<Rightarrow> json" where
  "error_message_of data =
     (case js_or (optional_member data ''error'') (optional_member data ''message'') of
        None \<Rightarrow> JStr ''An error occurred''
      | Some v \<Rightarrow> if truthy (Some v) then v else JStr ''An error occurred'')"

text \<open>
  \<open>fetchAPI\<close> from the point where \<open>fetch\<close> has resolved: \<open>Inl\<close> is the thrown
  \<open>ApiError\<close>, \<open>Inr\<close> the parsed body returned verbatim.
\<close>

definition fetchAPI :: "http_response \<Rightarrow> ApiError + json" where
  "fetchAPI response =
     (let data = (case json_body response of None \<Rightarrow> JNull | Some d \<Rightarrow> d)
      in if \<not> response_ok response
         then Inl (ApiError (status response) (statusText response)
                     (ToString (error_message_of data)))
         else Inr data)"

section \<open>Session: the \<open>user\<close> and \<open>token\<close> of \<open>useAuth()\<close>\<close>

text \<open>
  \<open>AuthProvider\<close>'s state. \<open>user\<close> is whatever value was stored by \<open>setUser\<close>
  (\<open>null\<close> is \<open>JNull\<close>); \<open>token\<close> is \<open>string | null\<close>.
\<close>

record AuthState =
  user :: json
  token :: "string option"
  auth_loading :: bool

text \<open>\<open>token\<close> as a condition: the token when it is truthy (not \<open>null\<close>, not empty).\<close>

definition bearer :: "AuthState \<Rightarrow> string option" where
  "bearer auth = (case token auth of None \<Rightarrow> None | Some t \<Rightarrow> if t = [] then None else Some t)"

text \<open>\<open>user && token\<close>: the token when both are truthy.\<close>

definition credentials :: "AuthState \<Rightarrow> string option" where
  "credentials auth = (if truthy (Some (user auth)) then bearer auth else None)"

section \<open>Cart Synchronizer: \<open>contexts/CartContext.tsx\<close>\<close>

record CartBook =
  cb_id :: string
  cb_title :: string
  cb_author :: string
  cb_price :: int
  cb_image_url :: "string option"
  cb_stock :: int

text \<open>\<open>interface CartItem\<close>; its \<open>id\<close> is \<open>item_id\<close> here.\<close>

record CartItem =
  item_id :: string
  book_id :: string
  quantity :: int
  book :: CartBook

text \<open>
  \<open>type CartAPIResponse = { cart?: { items: CartItem[] } } | { items: CartItem[] }\<close>,
  read through its two properties; a body with neither has both \<open>None\<close>.
\<close>

record CartObject =
  cart_items :: "CartItem list option"

record CartAPIResponse =
  cart :: "CartObject option"
  items :: "CartItem list option"

text \<open>
  \<open>response.cart?.items || response.items || []\<close>, the argument of \<open>setCartItems\<close>
  in \<open>refreshCart\<close>. An array is always truthy.
\<close>

definition normalizeCartResponse :: "CartAPIResponse \<Rightarrow> CartItem list" where
  "normalizeCartResponse response =
     (case (case cart response of None \<Rightarrow> None | Some c \<Rightarrow> cart_items c) of
        Some xs \<Rightarrow> xs
      | None \<Rightarrow> (case items response of Some ys \<Rightarrow> ys | None \<Rightarrow> []))"

text \<open>The calls of \<open>cartApi\<close>, with their arguments in the order of the source.\<close>

datatype cart_call =
    is_GetCart: GetCart string
  | is_AddToCart: AddToCart string int string
  | is_UpdateCart: UpdateCart string int string
  | is_RemoveFromCart: RemoveFromCart string string

text \<open>
  What such a call settles with: \<open>fetchAPI\<close> throws an \<open>ApiError\<close>, or \<open>fetch\<close>
  itself rejects (network failure, the 30 s timeout), or the parsed body comes back,
  \<open>None\<close> when it is \<open>null\<close>.
\<close>

datatype failure = ApiFailure ApiError | FetchFailure

datatype reply = Failed failure | Body "CartAPIResponse option"

text \<open>
  The remote service is outside the repository: any function from a call and the service's
  state to a reply and the next state.
\<close>

type_synonym 'srv remote = "cart_call \<Rightarrow> 'srv \<Rightarrow> reply \<times> 'srv"

text \<open>
  \<open>CartProvider\<close>'s state, together with the service's state and the log of the calls
  sent so far.
\<close>

record 'srv world =
  cartItems :: "CartItem list"
  cart_loading :: bool
  server :: 'srv
  calls :: "cart_call list"

definition call :: "'srv remote \<Rightarrow> cart_call \<Rightarrow> 'srv world \<Rightarrow> reply \<times> 'srv world" where
  "call api c w =
     (case api c (server w) of (r, s') \<Rightarrow> (r, w\<lparr>server := s', calls := calls w @ [c]\<rparr>))"

text \<open>The calls sent between two states.\<close>

definition issued :: "'srv world \<Rightarrow> 'srv world \<Rightarrow> cart_call list" where
  "issued w w' = drop (length (calls w)) (calls w')"

text \<open>
  \<open>refreshCart\<close> up to its \<open>await\<close>: without a session it empties the cart and
  returns; otherwise it sets \<open>loading\<close> and sends \<open>getCart\<close>.
\<close>

definition refreshCart_begin :: "AuthState \<Rightarrow> 'srv world \<Rightarrow> cart_call option \<times> 'srv world" where
  "refreshCart_begin auth w =
     (case credentials auth of
        None \<Rightarrow> (None, w\<lparr>cartItems := []\<rparr>)
      | Some t \<Rightarrow> (Some (GetCart t), w\<lparr>cart_loading := True\<rparr>))"

text \<open>
  \<open>refreshCart\<close> from the moment its \<open>getCart\<close> settles: a body replaces the cart
  (on a \<open>null\<close> body the property read throws, which the \<open>catch\<close> logs), a failure
  is logged, and \<open>finally\<close> clears \<open>loading\<close>.
\<close>

definition refreshCart_resolve :: "'srv world \<Rightarrow> reply \<Rightarrow> 'srv world" where
  "refreshCart_resolve w r =
     (case r of
        Body (Some response) \<Rightarrow> w\<lparr>cartItems := normalizeCartResponse response\<rparr>
      | Body None \<Rightarrow> w
      | Failed e \<Rightarrow> w)\<lparr>cart_loading := False\<rparr>"

text \<open>\<open>refreshCart\<close> run to completion with nothing interleaved.\<close>

definition refreshCart :: "'srv remote \<Rightarrow> AuthState \<Rightarrow> 'srv world \<Rightarrow> 'srv world" where
  "refreshCart api auth w =
     (case refreshCart_begin auth w of
        (None, w') \<Rightarrow> w'
      | (Some c, w') \<Rightarrow> (case call api c w' of (r, w'') \<Rightarrow> refreshCart_resolve w'' r))"

text \<open>
  The mutations return what they throw (\<open>Inl\<close>) or \<open>Inr ()\<close>, and the state they
  leave. Each is a closure of the render that created it: \<open>auth\<close> is the \<open>user\<close> and
  \<open>token\<close> of that render.
\<close>

datatype cart_error = MustBeLoggedIn | Thrown failure

definition removeFromCart ::
  "'srv remote \<Rightarrow> AuthState \<Rightarrow> string \<Rightarrow> 'srv world \<Rightarrow> (cart_error + unit) \<times> 'srv world" where
  "removeFromCart api auth itemId w =
     (case bearer auth of
        None \<Rightarrow> (Inl MustBeLoggedIn, w)
      | Some t \<Rightarrow>
          (case call api (RemoveFromCart itemId t) w of
             (Failed e, w') \<Rightarrow> (Inl (Thrown e), w')
           | (Body b, w') \<Rightarrow> (Inr (), refreshCart api auth w')))"

definition updateQuantity ::
  "'srv remote \<Rightarrow> AuthState \<Rightarrow> string \<Rightarrow> int \<Rightarrow> 'srv world \<Rightarrow> (cart_error + unit) \<times> 'srv world" where
  "updateQuantity api auth itemId qty w =
     (case bearer auth of
        None \<Rightarrow> (Inl MustBeLoggedIn, w)
      | Some t \<Rightarrow>
          if qty \<le> 0 then removeFromCart api auth itemId w
          else
            (case call api (UpdateCart itemId qty t) w of
               (Failed e, w') \<Rightarrow> (Inl (Thrown e), w')
             | (Body b, w') \<Rightarrow> (Inr (), refreshCart api auth w')))"


subsection \<open>The cart service the client is written against\<close>

text \<open>
  Modelled from the spec: the remote cart service, which this repository consumes and does
  not implement (spec section 6: \<open>GET /cart\<close> full cart snapshot, \<open>POST /cart/add\<close>
  add line, \<open>PUT /cart/{itemId}\<close> set line quantity, \<open>DELETE /cart/{itemId}\<close> remove
  line; section 3: a line has a server-assigned id and is unique per book). The details
  follow the example routes of \<open>BACKEND_EXAMPLE.md\<close>: adding a book that has a line adds
  to its quantity, a quantity \<open>\<le> 0\<close> sent to the update route deletes, an unknown line
  id answers 404 with the documented error envelope, the snapshot is the flat shape and
  lists the newest line first. \<open>catalog\<close> is the service's book table.

  The add route sees what \<open>cartApi.addToCart\<close> sends, \<open>{bookId: Number(bookId),
  quantity}\<close>: the book is the number, listed back as its decimal string (\<open>book_id\<close>
  is declared a string); \<open>NaN\<close> is serialised as \<open>null\<close>, which the insert refuses
  (\<open>book_id NOT NULL\<close>), and the error handler answers 500.
\<close>

record backend =
  lines :: "CartItem list"
  next_id :: nat

definition not_found :: reply where
  "not_found =
     (case fetchAPI \<lparr>status = 404, statusText = ''Not Found'',
             json_body = Some (JObj [(''error'',
               JObj [(''code'', JStr ''NOT_FOUND''), (''message'', JStr ''Cart item not found'')])])\<rparr> of
        Inl e \<Rightarrow> Failed (ApiFailure e)
      | Inr data \<Rightarrow> Body None)"

definition server_error :: reply where
  "server_error =
     (case fetchAPI \<lparr>status = 500, statusText = ''Internal Server Error'',
             json_body = Some (JObj [(''error'',
               JObj [(''code'', JStr ''SERVER_ERROR''),
                     (''message'', JStr ''null value in column book_id'')])])\<rparr> of
        Inl e \<Rightarrow> Failed (ApiFailure e)
      | Inr data \<Rightarrow> Body None)"

definition other_body :: reply where
  "other_body = Body (Some \<lparr>cart = None, items = None\<rparr>)"

fun backend_step :: "(string \<Rightarrow> CartBook) \<Rightarrow> backend remote" where
  "backend_step catalog (GetCart t) s =
     (Body (Some \<lparr>cart = None, items = Some (lines s)\<rparr>), s)"
| "backend_step catalog (AddToCart bookId q t) s =
     (case js_Number bookId of
        None \<Rightarrow> (server_error, s)
      | Some n \<Rightarrow>
          (let b = int_to_string n in
           if list_ex (\<lambda>l. book_id l = b) (lines s)
           then (other_body,
                 s\<lparr>lines := map (\<lambda>l. if book_id l = b then l\<lparr>quantity := quantity l + q\<rparr>
                                     else l) (lines s)\<rparr>)
           else (other_body,
                 s\<lparr>lines := \<lparr>item_id = nat_to_string (next_id s), book_id = b, quantity = q,
                               book = catalog b\<rparr> # lines s,
                   next_id := next_id s + 1\<rparr>)))"
| "backend_step catalog (UpdateCart i q t) s =
     (if q \<le> 0 then (other_body, s\<lparr>lines := filter (\<lambda>l. item_id l \<noteq> i) (lines s)\<rparr>)
      else if list_ex (\<lambda>l. item_id l = i) (lines s)
      then (other_body, s\<lparr>lines := map (\<lambda>l. if item_id l = i then l\<lparr>quantity := q\<rparr> else l) (lines s)\<rparr>)
      else (not_found, s))"
| "backend_step catalog (RemoveFromCart i t) s =
     (if list_ex (\<lambda>l. item_id l = i) (lines s)
      then (other_body, s\<lparr>lines := filter (\<lambda>l. item_id l \<noteq> i) (lines s)\<rparr>)
      else (not_found, s))"

text \<open>A call that does not carry a quantity \<open>\<le> 0\<close> to the update route.\<close>

definition update_positive :: "cart_call \<Rightarrow> bool" where
  "update_positive c = (case c of UpdateCart i q t \<Rightarrow> 0 < q | _ \<Rightarrow> True)"

subsection \<open>Sample session and cart\<close>

definition alice :: AuthState where
  "alice = \<lparr>user = JObj [(''id'', JStr ''u1''), (''email'', JStr ''alice@example.org'')],
            token = Some ''tok'', auth_loading = False\<rparr>"

definition shelf :: "string \<Rightarrow> CartBook" where
  "shelf b = \<lparr>cb_id = b, cb_title = ''Title '' @ b, cb_author = ''Author'', cb_price = 120000,
              cb_image_url = None, cb_stock = 5\<rparr>"

definition line7 :: "int \<Rightarrow> CartItem" where
  "line7 q = \<lparr>item_id = ''1'', book_id = ''7'', quantity = q, book = shelf ''7''\<rparr>"


definition one_line :: "backend world" where
  "one_line = \<lparr>cartItems = [line7 1], cart_loading = False,
                server = \<lparr>lines = [line7 1], next_id = 2\<rparr>, calls = []\<rparr>"

subsection \<open>Overlapping refreshes\<close>

text \<open>
  The last body among the replies that settled, in the order they settled: what a
  sequence of \<open>refreshCart\<close> resolutions leaves in \<open>cartItems\<close>.
\<close>

fun last_body :: "reply list \<Rightarrow> CartAPIResponse option" where
  "last_body [] = None"
| "last_body (r # rs) =
     (case last_body rs of
        Some response \<Rightarrow> Some response
      | None \<Rightarrow> (case r of Body (Some response) \<Rightarrow> Some response | _ \<Rightarrow> None))"

text \<open>
  Two overlapping mutations on \<open>one_line\<close>. A is \<open>updateQuantity(''1'', 2)\<close>: its
  update settles and its refresh request is answered by the service, but the reply
  \<open>reply_A\<close> is still on its way when B, \<open>updateQuantity(''1'', 3)\<close>, is issued; B's
  update and refresh are answered next. \<open>before_replies\<close> is the state with both replies
  in flight.
\<close>

definition after_A_sent :: "reply \<times> backend world" where
  "after_A_sent =
     call (backend_step shelf) (GetCart ''tok'')
       (snd (refreshCart_begin alice
          (snd (call (backend_step shelf) (UpdateCart ''1'' 2 ''tok'') one_line))))"

definition after_B_sent :: "reply \<times> backend world" where
  "after_B_sent =
     call (backend_step shelf) (GetCart ''tok'')
       (snd (refreshCart_begin alice
          (snd (call (backend_step shelf) (UpdateCart ''1'' 3 ''tok'') (snd after_A_sent)))))"

definition reply_A :: reply where
  "reply_A = fst after_A_sent"

definition reply_B :: reply where
  "reply_B = fst after_B_sent"

definition before_replies :: "backend world" where
  "before_replies = snd after_B_sent"

section \<open>Chat widget: \<open>components/ChatWidget.tsx\<close>\<close>

text \<open>\<open>interface Message\<close>; its \<open>id\<close> is \<open>msg_id\<close> here.\<close>

record Message =
  msg_id :: int
  content :: string
  sender_id :: int
  created_at :: int
  is_admin :: bool

text \<open>
  What \<open>JSON.parse(event.data)\<close> gives for a frame: a \<open>SyntaxError\<close>, a value with
  no \<open>type\<close> to read, or an envelope with its \<open>type\<close> and \<open>payload\<close>.
\<close>

datatype ws_frame = NotJson | NoType | Envelope string Message

text \<open>\<open>ws.onmessage\<close>: \<open>setMessages(prev => [...prev, data.payload])\<close> for a chat frame.\<close>

fun onmessage :: "Message list \<Rightarrow> ws_frame \<Rightarrow> Message list" where
  "onmessage messages (Envelope ty payload) =
     (if ty = ''chat'' then messages @ [payload] else messages)"
| "onmessage messages NotJson = messages"
| "onmessage messages NoType = messages"

text \<open>
  What the history request settles with: a failure (\<open>fetch\<close> or \<open>res.json()\<close>
  rejects), or the parsed body, \<open>Some\<close> when \<open>Array.isArray(data)\<close>.
\<close>

datatype history_outcome = HistoryFailed | HistoryBody "Message list option"

text \<open>\<open>fetchHistory\<close> from the moment the request settles: \<open>setMessages(data)\<close>.\<close>

fun fetchHistory_resolve :: "Message list \<Rightarrow> history_outcome \<Rightarrow> Message list" where
  "fetchHistory_resolve messages (HistoryBody (Some data)) = data"
| "fetchHistory_resolve messages (HistoryBody None) = messages"
| "fetchHistory_resolve messages HistoryFailed = messages"

text \<open>The events that change \<open>messages\<close>, and a run of them in arrival order.\<close>

datatype chat_event = Frame ws_frame | History history_outcome

fun chat_step :: "Message list \<Rightarrow> chat_event \<Rightarrow> Message list" where
  "chat_step messages (Frame f) = onmessage messages f"
| "chat_step messages (History h) = fetchHistory_resolve messages h"

definition chat_run :: "Message list \<Rightarrow> chat_event list \<Rightarrow> Message list" where
  "chat_run messages events = foldl chat_step messages events"

text \<open>The payloads of the chat frames among the events, in arrival order.\<close>

fun chat_payloads :: "chat_event list \<Rightarrow> Message list" where
  "chat_payloads [] = []"
| "chat_payloads (Frame (Envelope ty payload) # es) =
     (if ty = ''chat'' then payload # chat_payloads es else chat_payloads es)"
| "chat_payloads (e # es) = chat_payloads es"

fun is_history_array :: "chat_event \<Rightarrow> bool" where
  "is_history_array (History (HistoryBody (Some data))) = True"
| "is_history_array e = False"

text \<open>The messages of the spec's merge scenario: timestamps 1, 2, 2.5 and 3 seconds.\<close>

definition message :: "int \<Rightarrow> int \<Rightarrow> Message" where
  "message i t = \<lparr>msg_id = i, content = ''m'', sender_id = 1, created_at = t, is_admin = False\<rparr>"

definition m1 :: Message where "m1 = message 1 1000"
definition m2 :: Message where "m2 = message 2 2000"
definition m25 :: Message where "m25 = message 25 2500"
definition m3 :: Message where "m3 = message 3 3000"

subsection \<open>The chat socket\<close>

text \<open>
  \<open>socketRef\<close>, \<open>isConnected\<close>, the reconnect timers that are pending, and the tokens
  of the sockets constructed so far. The widget installs \<open>onopen\<close>, \<open>onmessage\<close> and
  \<open>onclose\<close>; it has no \<open>onerror\<close>. A handshake the server rejects closes the socket,
  so the widget sees it as \<open>onclose\<close>.
\<close>

record chat_socket =
  socketRef :: "nat option"
  isConnected :: bool
  timers :: nat
  chat_opened :: "string list"

text \<open>
  \<open>connectWebSocket\<close>: nothing without a token; otherwise the existing socket is closed
  with its \<open>onclose\<close> disarmed and a new one is constructed.
\<close>

definition connectWebSocket :: "AuthState \<Rightarrow> chat_socket \<Rightarrow> chat_socket" where
  "connectWebSocket auth s =
     (case bearer auth of
        None \<Rightarrow> s
      | Some t \<Rightarrow> s\<lparr>socketRef := Some (length (chat_opened s)),
                     chat_opened := chat_opened s @ [t]\<rparr>)"

definition chat_onopen :: "chat_socket \<Rightarrow> chat_socket" where
  "chat_onopen s = s\<lparr>isConnected := True\<rparr>"

text \<open>\<open>ws.onclose\<close>: \<open>setTimeout(() => { if (user && token) connectWebSocket(); }, 3000)\<close>.\<close>

definition chat_onclose :: "chat_socket \<Rightarrow> chat_socket" where
  "chat_onclose s = s\<lparr>isConnected := False, timers := timers s + 1\<rparr>"

definition chat_timer :: "AuthState \<Rightarrow> chat_socket \<Rightarrow> chat_socket" where
  "chat_timer auth s =
     (if timers s = 0 then s
      else if credentials auth \<noteq> None then connectWebSocket auth (s\<lparr>timers := timers s - 1\<rparr>)
      else s\<lparr>timers := timers s - 1\<rparr>)"

definition chat_idle :: chat_socket where
  "chat_idle = \<lparr>socketRef = None, isConnected = False, timers = 0, chat_opened = []\<rparr>"

section \<open>Notification socket: the \<open>ws\<close> effect of \<open>AppContent\<close>\<close>

text \<open>
  The state the effect reads and writes: the session token, the \<open>ws\<close> state (the socket's
  number), the two refs, and the tokens of the sockets constructed so far (the URL is the
  configured base with \<open>/ws?token=\<close> and the token).
\<close>

record notify_socket =
  ws_token :: "string option"
  ws :: "nat option"
  wsUnauthorizedRef :: bool
  wsConnectingRef :: bool
  ws_opened :: "string list"

text \<open>
  The effect body; \<open>constructed\<close> is whether \<open>new WebSocket(url)\<close> returned rather
  than threw.
\<close>

definition ws_effect :: "bool \<Rightarrow> notify_socket \<Rightarrow> notify_socket" where
  "ws_effect constructed s =
     (case (case ws_token s of None \<Rightarrow> None | Some t \<Rightarrow> if t = [] then None else Some t) of
        None \<Rightarrow> (if ws s \<noteq> None then s\<lparr>ws := None\<rparr> else s)
      | Some t \<Rightarrow>
          if wsUnauthorizedRef s \<or> wsConnectingRef s then s
          else if \<not> constructed then s\<lparr>wsConnectingRef := False\<rparr>
          else s\<lparr>wsConnectingRef := True, ws := Some (length (ws_opened s)),
                 ws_opened := ws_opened s @ [t]\<rparr>)"

text \<open>The socket's handlers, the effect's cleanup, and a change of session.\<close>

datatype ws_event =
    EffectRun bool
  | Cleanup
  | OnOpen
  | OnError
  | OnClose
  | OnMessage
  | SetToken "string option"

fun ws_step :: "notify_socket \<Rightarrow> ws_event \<Rightarrow> notify_socket" where
  "ws_step s (EffectRun constructed) = ws_effect constructed s"
| "ws_step s Cleanup = s\<lparr>ws := None\<rparr>"
| "ws_step s OnOpen = s\<lparr>wsConnectingRef := False\<rparr>"
| "ws_step s OnError = s\<lparr>wsUnauthorizedRef := True, wsConnectingRef := False\<rparr>"
| "ws_step s OnClose = s\<lparr>wsConnectingRef := False\<rparr>"
| "ws_step s OnMessage = s"
| "ws_step s (SetToken t) = s\<lparr>ws_token := t\<rparr>"

definition ws_run :: "notify_socket \<Rightarrow> ws_event list \<Rightarrow> notify_socket" where
  "ws_run s events = foldl ws_step s events"

definition ws_initial :: notify_socket where
  "ws_initial = \<lparr>ws_token = Some ''tok'', ws = None, wsUnauthorizedRef = False,
                  wsConnectingRef = False, ws_opened = []\<rparr>"

section \<open>Catalog Query Pipeline: \<open>components/BookCatalog.tsx\<close> and \<open>App.tsx\<close>\<close>

datatype SortOption = newest | price_asc | price_desc | rating | bestseller

text \<open>\<open>interface FilterParams\<close>: every property is optional (\<open>None\<close> is \<open>undefined\<close>).\<close>

record FilterParams =
  p_categories :: "string list option"
  p_minPrice :: "int option"
  p_maxPrice :: "int option"
  p_minRating :: "int option"
  p_sortBy :: "SortOption option"
  p_search :: "string option"
  p_page :: "int option"
  p_limit :: "int option"

text \<open>\<open>interface FilterState\<close>, the \<open>filters\<close> state of \<open>AppContent\<close>.\<close>

record FilterState =
  f_categories :: "string list"
  f_minPrice :: int
  f_maxPrice :: int
  f_minRating :: int
  f_sortBy :: SortOption
  f_search :: string
  f_page :: int
  f_limit :: int

text \<open>
  The state of \<open>BookCatalog\<close> that the filter effect reads, with the \<open>searchQuery\<close>
  prop, which is \<open>AppContent\<close>'s state set by the header's \<open>onSearchChange\<close>.
\<close>

record BookCatalog =
  sortBy :: SortOption
  selectedCategories :: "string list"
  priceRange :: "int \<times> int"
  minRating :: int
  selectedLetter :: string
  currentPage :: int
  searchQuery :: string

definition ITEMS_PER_PAGE :: int where
  "ITEMS_PER_PAGE = 12"

text \<open>The \<open>filterParams\<close> object the filter effect hands to \<open>onFilterChange\<close>.\<close>

definition filterParams :: "BookCatalog \<Rightarrow> FilterParams" where
  "filterParams c =
     \<lparr>p_categories = (if length (selectedCategories c) > 0 then Some (selectedCategories c) else None),
      p_minPrice = Some (fst (priceRange c)),
      p_maxPrice = Some (snd (priceRange c)),
      p_minRating = (if minRating c > 0 then Some (minRating c) else None),
      p_sortBy = Some (sortBy c),
      p_search = Some (searchQuery c),
      p_page = Some (currentPage c),
      p_limit = Some ITEMS_PER_PAGE\<rparr>"

text \<open>The handlers of \<open>BookCatalog\<close>.\<close>

definition handleClearFilters :: "BookCatalog \<Rightarrow> BookCatalog" where
  "handleClearFilters c =
     c\<lparr>selectedCategories := [], priceRange := (0, 500000), minRating := 0,
       selectedLetter := [], sortBy := newest, currentPage := 1\<rparr>"

definition handleSortChange :: "SortOption \<Rightarrow> BookCatalog \<Rightarrow> BookCatalog" where
  "handleSortChange v c = c\<lparr>sortBy := v, currentPage := 1\<rparr>"

definition handleCategoryChange :: "string list \<Rightarrow> BookCatalog \<Rightarrow> BookCatalog" where
  "handleCategoryChange cs c = c\<lparr>selectedCategories := cs, currentPage := 1\<rparr>"

definition handlePriceChange :: "int \<times> int \<Rightarrow> BookCatalog \<Rightarrow> BookCatalog" where
  "handlePriceChange rng c = c\<lparr>priceRange := rng, currentPage := 1\<rparr>"

definition handleRatingChange :: "int \<Rightarrow> BookCatalog \<Rightarrow> BookCatalog" where
  "handleRatingChange r c = c\<lparr>minRating := r, currentPage := 1\<rparr>"

definition handleLetterChange :: "string \<Rightarrow> BookCatalog \<Rightarrow> BookCatalog" where
  "handleLetterChange letter c = c\<lparr>selectedLetter := letter, currentPage := 1\<rparr>"

definition handlePageChange :: "int \<Rightarrow> BookCatalog \<Rightarrow> BookCatalog" where
  "handlePageChange n c = c\<lparr>currentPage := n\<rparr>"

text \<open>
  \<open>onSearchChange={setSearchQuery}\<close>: typing in the header's search box changes the
  \<open>searchQuery\<close> prop and nothing else.
\<close>

definition onSearchChange :: "string \<Rightarrow> BookCatalog \<Rightarrow> BookCatalog" where
  "onSearchChange q c = c\<lparr>searchQuery := q\<rparr>"

text \<open>\<open>handleFilterChange\<close>: the updater passed to \<open>setFilters\<close>.\<close>

definition handleFilterChange :: "FilterState \<Rightarrow> FilterParams \<Rightarrow> FilterState" where
  "handleFilterChange prev ps =
     \<lparr>f_categories = (case p_categories ps of Some cs \<Rightarrow> cs | None \<Rightarrow> []),
      f_minPrice = (case p_minPrice ps of Some n \<Rightarrow> n | None \<Rightarrow> f_minPrice prev),
      f_maxPrice = (case p_maxPrice ps of Some n \<Rightarrow> n | None \<Rightarrow> f_maxPrice prev),
      f_minRating = (case p_minRating ps of Some n \<Rightarrow> n | None \<Rightarrow> f_minRating prev),
      f_sortBy = (case p_sortBy ps of Some v \<Rightarrow> v | None \<Rightarrow> f_sortBy prev),
      f_search = (case p_search ps of Some q \<Rightarrow> q | None \<Rightarrow> f_search prev),
      f_page = (case p_page ps of Some n \<Rightarrow> if n \<noteq> 0 then n else 1 | None \<Rightarrow> 1),
      f_limit = (case p_limit ps of Some n \<Rightarrow> if n \<noteq> 0 then n else f_limit prev
                 | None \<Rightarrow> f_limit prev)\<rparr>"

text \<open>\<open>buildQueryString(filters)\<close> is called on the \<open>FilterState\<close>: every property is set.\<close>

definition as_params :: "FilterState \<Rightarrow> FilterParams" where
  "as_params f =
     \<lparr>p_categories = Some (f_categories f), p_minPrice = Some (f_minPrice f),
      p_maxPrice = Some (f_maxPrice f), p_minRating = Some (f_minRating f),
      p_sortBy = Some (f_sortBy f), p_search = Some (f_search f),
      p_page = Some (f_page f), p_limit = Some (f_limit f)\<rparr>"

text \<open>The \<open>switch\<close> of \<open>buildQueryString\<close>: sort field and order.\<close>

fun sort_of :: "SortOption \<Rightarrow> string \<times> string" where
  "sort_of price_asc = (''price'', ''asc'')"
| "sort_of price_desc = (''price'', ''desc'')"
| "sort_of rating = (''rating_avg'', ''desc'')"
| "sort_of bestseller = (''sold'', ''desc'')"
| "sort_of newest = (''created_at'', ''desc'')"

text \<open>
  \<open>buildQueryString\<close>: the entries appended to the \<open>URLSearchParams\<close>, in order
  (\<open>query.toString()\<close> serialises exactly these).
\<close>

definition buildQueryString :: "FilterParams \<Rightarrow> (string \<times> string) list" where
  "buildQueryString params =
     [(''page'', (case p_page params of Some n \<Rightarrow> int_to_string n | None \<Rightarrow> ''1'')),
      (''limit'', (case p_limit params of Some n \<Rightarrow> int_to_string n | None \<Rightarrow> ''20''))]
     @ (case p_categories params of
          Some cs \<Rightarrow> if length cs > 0 then [(''categories'', join '','' cs)] else []
        | None \<Rightarrow> [])
     @ (case p_minPrice params of Some n \<Rightarrow> [(''min_price'', int_to_string n)] | None \<Rightarrow> [])
     @ (case p_maxPrice params of Some n \<Rightarrow> [(''max_price'', int_to_string n)] | None \<Rightarrow> [])
     @ (case p_minRating params of
          Some n \<Rightarrow> if n > 0 then [(''min_rating'', int_to_string n)] else []
        | None \<Rightarrow> [])
     @ (case p_search params of Some q \<Rightarrow> if q \<noteq> [] then [(''search'', q)] else [] | None \<Rightarrow> [])
     @ (let so = sort_of (case p_sortBy params of Some v \<Rightarrow> v | None \<Rightarrow> newest)
        in [(''sort_by'', fst so), (''sort_order'', snd so)])"

text \<open>
  The query issued once the two debounce timers have fired for the catalog state \<open>c\<close>:
  the filter effect's \<open>filterParams\<close>, through \<open>handleFilterChange\<close>, into
  \<open>buildQueryString\<close>.
\<close>

definition catalog_query :: "FilterState \<Rightarrow> BookCatalog \<Rightarrow> (string \<times> string) list" where
  "catalog_query prev c = buildQueryString (as_params (handleFilterChange prev (filterParams c)))"

text \<open>The initial \<open>filters\<close>, and a catalog on page 3 of the category \<open>fiction\<close>.\<close>

definition initial_filters :: FilterState where
  "initial_filters =
     \<lparr>f_categories = [], f_minPrice = 0, f_maxPrice = 500000, f_minRating = 0,
      f_sortBy = newest, f_search = [], f_page = 1, f_limit = 12\<rparr>"

definition fiction_page3 :: BookCatalog where
  "fiction_page3 =
     \<lparr>sortBy = newest, selectedCategories = [''fiction''], priceRange = (0, 500000),
      minRating = 0, selectedLetter = [], currentPage = 3, searchQuery = []\<rparr>"

subsection \<open>Response normalisation\<close>

text \<open>\<open>interface BookCatalogCategory\<close>; its \<open>id\<close> is \<open>cat_id\<close> here.\<close>

record BookCatalogCategory =
  cat_id :: string
  cat_name :: string
  cat_slug :: string
  cat_description :: string
  cat_created_at :: int
  cat_updated_at :: int

text \<open>
  The category object of the API (\<open>types/api\<close> is not among the sources; these are the
  properties \<open>normalizeBook\<close> reads): \<open>id\<close> of any primitive type, an optional
  description, and timestamps that are \<open>Some\<close> when \<open>typeof\<close> gives \<open>number\<close>.
\<close>

record ApiCategory =
  ac_id :: json
  ac_name :: string
  ac_slug :: string
  ac_description :: "string option"
  ac_created_at :: "int option"
  ac_updated_at :: "int option"

text \<open>
  \<open>book.category\<close> at run time, by \<open>typeof\<close>: a string, a non-null object, or
  something else (\<open>null\<close>, a missing property, a number, a boolean).
\<close>

datatype category_field =
    CategoryString string
  | CategoryObject ApiCategory
  | CategoryNull
  | CategoryUndefined
  | CategoryNumber int
  | CategoryBool bool

record ApiBook =
  ab_id :: string
  ab_title :: string
  ab_author :: string
  ab_price :: int
  ab_image_url :: "string option"
  ab_cover_url :: "string option"
  ab_excerpt :: "string option"
  ab_category :: category_field
  ab_rating_avg :: int
  ab_rating_count :: int
  ab_stock :: int

record BookCatalogBook =
  bc_id :: string
  bc_title :: string
  bc_author :: string
  bc_price :: int
  bc_image_url :: "string option"
  bc_excerpt :: "string option"
  bc_category :: BookCatalogCategory
  bc_rating_avg :: int
  bc_rating_count :: int
  bc_stock :: int

text \<open>\<open>s.toLowerCase().replace(/\s+/g, '-')\<close> on ASCII.\<close>

definition lower_char :: "char \<Rightarrow> char" where
  "lower_char c =
     (case map_of (zip ''ABCDEFGHIJKLMNOPQRSTUVWXYZ'' ''abcdefghijklmnopqrstuvwxyz'') c of
        Some l \<Rightarrow> l
      | None \<Rightarrow> c)"

fun replace_spaces :: "bool \<Rightarrow> string \<Rightarrow> string" where
  "replace_spaces in_run [] = []"
| "replace_spaces in_run (c # cs) =
     (if is_space c
      then (if in_run then replace_spaces True cs else CHR ''-'' # replace_spaces True cs)
      else c # replace_spaces False cs)"

definition slug_of :: "string \<Rightarrow> string" where
  "slug_of s = replace_spaces False (map lower_char s)"

text \<open>\<open>a || b\<close> on strings that may be \<open>null\<close>: the empty string is falsy.\<close>

definition str_or :: "string option \<Rightarrow> string option \<Rightarrow> string option" where
  "str_or a b = (case a of Some s \<Rightarrow> if s \<noteq> [] then Some s else b | None \<Rightarrow> b)"

text \<open>
  \<open>normalizeBook\<close> on the book \<open>bk\<close>; \<open>now\<close> is what \<open>Date.now()\<close> returns during the call, and
  \<open>None\<close> is \<open>null\<close>.
\<close>

definition normalizeBook ::
  "int \<Rightarrow> (string \<rightharpoonup> BookCatalogCategory) \<Rightarrow> ApiBook \<Rightarrow> BookCatalogBook option" where
  "normalizeBook now categoryMap bk =
     (let category =
        (case ab_category bk of
           CategoryString s \<Rightarrow>
             Some (case categoryMap s of
                     Some c \<Rightarrow> c
                   | None \<Rightarrow> \<lparr>cat_id = s, cat_name = s, cat_slug = slug_of s,
                              cat_description = [], cat_created_at = now, cat_updated_at = now\<rparr>)
         | CategoryObject cat \<Rightarrow>
             Some \<lparr>cat_id = ToString (ac_id cat), cat_name = ac_name cat, cat_slug = ac_slug cat,
                   cat_description = (case ac_description cat of Some d \<Rightarrow> d | None \<Rightarrow> []),
                   cat_created_at = (case ac_created_at cat of Some n \<Rightarrow> n | None \<Rightarrow> now),
                   cat_updated_at = (case ac_updated_at cat of Some n \<Rightarrow> n | None \<Rightarrow> now)\<rparr>
         | CategoryNull \<Rightarrow> None
         | CategoryUndefined \<Rightarrow> None
         | CategoryNumber n \<Rightarrow> None
         | CategoryBool b \<Rightarrow> None)
      in case category of
           None \<Rightarrow> None
         | Some c \<Rightarrow>
             Some \<lparr>bc_id = ab_id bk, bc_title = ab_title bk, bc_author = ab_author bk,
                   bc_price = ab_price bk,
                   bc_image_url = str_or (ab_image_url bk) (str_or (ab_cover_url bk) None),
                   bc_excerpt = ab_excerpt bk, bc_category = c,
                   bc_rating_avg = ab_rating_avg bk, bc_rating_count = ab_rating_count bk,
                   bc_stock = ab_stock bk\<rparr>)"

text \<open>\<open>categories.forEach(cat => categoryMap.set(cat.id, cat))\<close>: a later entry wins.\<close>

definition build_categoryMap :: "BookCatalogCategory list \<Rightarrow> (string \<rightharpoonup> BookCatalogCategory)" where
  "build_categoryMap categories = fold (\<lambda>cat m. m(cat_id cat \<mapsto> cat)) categories Map.empty"

text \<open>
  \<open>booksArray.map(book => normalizeBook(book, categoryMap)).filter(book => book !== null)\<close>,
  the argument of \<open>setBooks\<close>.
\<close>

definition normalizedBooks ::
  "int \<Rightarrow> BookCatalogCategory list \<Rightarrow> ApiBook list \<Rightarrow> BookCatalogBook list" where
  "normalizedBooks now categories booksArray =
     List.map_filter (normalizeBook now (build_categoryMap categories)) booksArray"

text \<open>A category field that is a string or an object.\<close>

fun has_category :: "category_field \<Rightarrow> bool" where
  "has_category (CategoryString s) = True"
| "has_category (CategoryObject cat) = True"
| "has_category other = False"

definition sample_book :: "string \<Rightarrow> category_field \<Rightarrow> ApiBook" where
  "sample_book i c =
     \<lparr>ab_id = i, ab_title = ''Title'', ab_author = ''Author'', ab_price = 90000,
      ab_image_url = None, ab_cover_url = Some ''cover.png'', ab_excerpt = None,
      ab_category = c, ab_rating_avg = 4, ab_rating_count = 10, ab_stock = 3\<rparr>"

section \<open>Session/Auth Store: the restore effect of \<open>AuthProvider\<close>\<close>

datatype js_error = SyntaxError

text \<open>
  The mount effect. \<open>storedToken\<close> and \<open>storedUser\<close> are what \<open>localStorage.getItem\<close>
  returns (\<open>None\<close> is \<open>null\<close>); \<open>parsed\<close> is what \<open>JSON.parse(storedUser)\<close>
  does, \<open>None\<close> when it throws a \<open>SyntaxError\<close> (it is only called when both entries
  are truthy). \<open>Inl\<close> is the error thrown out of the effect: nothing catches it.
\<close>

definition restore ::
  "string option \<Rightarrow> string option \<Rightarrow> json option \<Rightarrow> AuthState \<Rightarrow> js_error + AuthState" where
  "restore storedToken storedUser parsed s =
     (if (case storedToken of Some t \<Rightarrow> t \<noteq> [] | None \<Rightarrow> False)
         \<and> (case storedUser of Some u \<Rightarrow> u \<noteq> [] | None \<Rightarrow> False)
      then (case parsed of
              None \<Rightarrow> Inl SyntaxError
            | Some u \<Rightarrow> Inr (s\<lparr>token := storedToken, user := u, auth_loading := False\<rparr>))
      else Inr (s\<lparr>auth_loading := False\<rparr>))"

text \<open>The state \<open>AuthProvider\<close> mounts with.\<close>

definition mounted :: AuthState where
  "mounted = \<lparr>user = JNull, token = None, auth_loading = True\<rparr>"

section \<open>Properties\<close>

subsection \<open>Gateway\<close>

lemma not_found_eq:
  "not_found = Failed (ApiFailure (ApiError 404 ''Not Found'' ''[object Object]''))"
  by (simp add: not_found_def fetchAPI_def response_ok_def error_message_of_def js_or_def)

text \<open>
  C8. For every non-success response the thrown \<open>ApiError\<close> should carry the status,
  the status text and a human-readable message taken first from the nested error
  code/message field. At the error envelope the repository documents,
  \<open>{"error": {"code": ..., "message": ...}}\<close> (here a 404 of the cart routes), the status
  and status text are carried, but the message is the rendering of the whole \<open>error\<close>
  object, \<open>[object Object]\<close>, not the nested message.
\<close>

theorem fetchAPI_documented_envelope:
  "fetchAPI \<lparr>status = 404, statusText = ''Not Found'',
      json_body = Some (JObj [(''error'',
        JObj [(''code'', JStr ''NOT_FOUND''), (''message'', JStr ''Cart item not found'')])])\<rparr>
   = Inl (ApiError 404 ''Not Found'' ''[object Object]'')"
  by (simp add: fetchAPI_def response_ok_def error_message_of_def js_or_def)

lemma fetchAPI_not_ok:
  "\<not> response_ok response \<Longrightarrow>
     \<exists>m. fetchAPI response = Inl (ApiError (status response) (statusText response) m)"
  by (simp add: fetchAPI_def)

lemma fetchAPI_unparseable:
  "\<not> response_ok response \<Longrightarrow> json_body response = None \<Longrightarrow>
     fetchAPI response = Inl (ApiError (status response) (statusText response) ''An error occurred'')"
  by (simp add: fetchAPI_def error_message_of_def js_or_def)

lemma fetchAPI_string_error:
  "\<not> response_ok response \<Longrightarrow> json_body response = Some (JObj kvs) \<Longrightarrow>
   map_of kvs ''error'' = Some (JStr m) \<Longrightarrow> m \<noteq> [] \<Longrightarrow>
     fetchAPI response = Inl (ApiError (status response) (statusText response) m)"
  by (simp add: fetchAPI_def error_message_of_def js_or_def)

lemma fetchAPI_top_level_message:
  "\<not> response_ok response \<Longrightarrow> json_body response = Some (JObj kvs) \<Longrightarrow>
   map_of kvs ''error'' = None \<Longrightarrow> map_of kvs ''message'' = Some (JStr m) \<Longrightarrow> m \<noteq> [] \<Longrightarrow>
     fetchAPI response = Inl (ApiError (status response) (statusText response) m)"
  by (simp add: fetchAPI_def error_message_of_def js_or_def)

subsection \<open>Cart: the call log\<close>

lemma calls_call: "calls (snd (call api c w)) = calls w @ [c]"
  by (simp add: call_def split: prod.splits)

lemma calls_refreshCart_resolve: "calls (refreshCart_resolve w r) = calls w"
  by (simp add: refreshCart_resolve_def split: reply.splits option.splits)

lemma calls_refreshCart:
  "calls (refreshCart api auth w) =
     calls w @ (case credentials auth of None \<Rightarrow> [] | Some t \<Rightarrow> [GetCart t])"
  by (simp add: refreshCart_def refreshCart_begin_def call_def calls_refreshCart_resolve
      split: option.splits prod.splits)

lemma issued_append: "calls w' = calls w @ cs \<Longrightarrow> issued w w' = cs"
  by (simp add: issued_def)

lemma calls_removeFromCart:
  "\<exists>cs. calls (snd (removeFromCart api auth i w)) = calls w @ cs \<and>
        list_all (\<lambda>c. is_RemoveFromCart c \<or> is_GetCart c) cs"
  by (auto simp: removeFromCart_def call_def calls_refreshCart
      split: option.splits prod.splits reply.splits)

lemma calls_updateQuantity:
  "\<exists>cs. calls (snd (updateQuantity api auth i q w)) = calls w @ cs \<and>
        list_all (\<lambda>c. is_RemoveFromCart c \<or> is_GetCart c \<or>
                      (is_UpdateCart c \<and> update_positive c)) cs"
proof (cases "q \<le> 0 \<or> bearer auth = None")
  case True
  then show ?thesis
    using calls_removeFromCart[of api auth i w]
    by (auto simp: updateQuantity_def split: option.splits elim!: list.pred_mono_strong)
next
  case False
  then show ?thesis
    by (auto simp: updateQuantity_def call_def calls_refreshCart update_positive_def
        split: option.splits prod.splits reply.splits)
qed

subsection \<open>Cart: the client against the reference service\<close>

lemma refreshCart_backend:
  "server (refreshCart (backend_step catalog) auth w) = server w"
  "cartItems (refreshCart (backend_step catalog) auth w) =
     (case credentials auth of None \<Rightarrow> [] | Some t \<Rightarrow> lines (server w))"
  by (simp_all add: refreshCart_def refreshCart_begin_def call_def refreshCart_resolve_def
      normalizeCartResponse_def split: option.splits prod.splits)

lemma filter_no_match: "\<not> list_ex P xs \<Longrightarrow> filter (\<lambda>x. \<not> P x) xs = xs"
  by (induction xs) auto

lemma bearer_of_credentials: "credentials auth = Some t \<Longrightarrow> bearer auth = Some t"
  by (simp add: credentials_def split: if_splits)

lemma lines_removeFromCart_backend:
  "lines (server (snd (removeFromCart (backend_step catalog) auth i w))) =
     (if bearer auth = None then lines (server w)
      else filter (\<lambda>l. item_id l \<noteq> i) (lines (server w)))"
proof (cases "bearer auth")
  case None
  then show ?thesis by (simp add: removeFromCart_def)
next
  case (Some t)
  show ?thesis
  proof (cases "list_ex (\<lambda>l. item_id l = i) (lines (server w))")
    case True
    then show ?thesis using Some
      by (simp add: removeFromCart_def call_def other_body_def refreshCart_backend)
  next
    case False
    then show ?thesis using Some filter_no_match[OF False]
      by (simp add: removeFromCart_def call_def not_found_eq)
  qed
qed

lemma lines_updateQuantity_backend:
  "lines (server (snd (updateQuantity (backend_step catalog) auth i q w))) =
     (if bearer auth = None then lines (server w)
      else if q \<le> 0 then filter (\<lambda>l. item_id l \<noteq> i) (lines (server w))
      else map (\<lambda>l. if item_id l = i then l\<lparr>quantity := q\<rparr> else l) (lines (server w)))"
proof (cases "bearer auth")
  case None
  then show ?thesis by (simp add: updateQuantity_def)
next
  case (Some t)
  have same: "\<not> list_ex (\<lambda>l. item_id l = i) xs \<Longrightarrow>
      map (\<lambda>l. if item_id l = i then l\<lparr>quantity := q\<rparr> else l) xs = xs"
    for xs :: "CartItem list"
    by (induction xs) auto
  show ?thesis
  proof (cases "q \<le> 0")
    case True
    then show ?thesis using Some
      by (simp add: updateQuantity_def lines_removeFromCart_backend)
  next
    case False
    then show ?thesis using Some same[of "lines (server w)"]
      by (cases "list_ex (\<lambda>l. item_id l = i) (lines (server w))")
         (simp_all add: updateQuantity_def call_def other_body_def refreshCart_backend
            not_found_eq)
  qed
qed

lemma positive_updateQuantity_backend:
  assumes "list_all (\<lambda>l. 0 < quantity l) (lines (server w))"
  shows "list_all (\<lambda>l. 0 < quantity l)
           (lines (server (snd (updateQuantity (backend_step catalog) auth i q w))))"
  using assms by (auto simp: lines_updateQuantity_backend list_all_iff)

subsection \<open>Cart: envelope shapes and the quantity floor\<close>

text \<open>
  C4. For every list of cart lines, the nested response \<open>{cart: {items: xs}}\<close> and the
  flat response \<open>{items: xs}\<close> normalise to the same internal list, \<open>xs\<close> itself,
  and a refresh that settles with either leaves the same state.
\<close>

theorem envelope_tolerance:
  "normalizeCartResponse \<lparr>cart = Some \<lparr>cart_items = Some xs\<rparr>, items = None\<rparr> = xs
   \<and> normalizeCartResponse \<lparr>cart = None, items = Some xs\<rparr> = xs
   \<and> refreshCart_resolve w (Body (Some \<lparr>cart = Some \<lparr>cart_items = Some xs\<rparr>, items = None\<rparr>))
       = refreshCart_resolve w (Body (Some \<lparr>cart = None, items = Some xs\<rparr>))"
  by (simp add: normalizeCartResponse_def refreshCart_resolve_def)

lemma eval_remove: "snd (removeFromCart (backend_step shelf) alice ''1'' one_line) =
  \<lparr>cartItems = [], cart_loading = False, server = \<lparr>lines = [], next_id = 2\<rparr>,
    calls = [RemoveFromCart ''1'' ''tok'', GetCart ''tok'']\<rparr>"
  by (simp add: removeFromCart_def alice_def one_line_def bearer_def credentials_def call_def line7_def
      other_body_def refreshCart_def refreshCart_begin_def refreshCart_resolve_def normalizeCartResponse_def)

text \<open>
  C2. For every line id and every quantity \<open>\<le> 0\<close>, \<open>updateQuantity\<close> is
  \<open>removeFromCart\<close> on that line and sends no update call; whatever the quantity, an
  update call that is sent carries a quantity \<open>> 0\<close>. Against the reference service the
  line is gone afterwards (with a token), and lines that all had a quantity \<open>> 0\<close> still
  have one after any \<open>updateQuantity\<close>.
\<close>

theorem updateQuantity_floor:
  assumes "newQuantity \<le> 0"
  shows "updateQuantity api auth lineId newQuantity w = removeFromCart api auth lineId w
       \<and> list_all (\<lambda>c. \<not> is_UpdateCart c)
           (issued w (snd (updateQuantity api auth lineId newQuantity w)))
       \<and> list_all update_positive (issued w (snd (updateQuantity api auth lineId anyQuantity w)))
       \<and> (bearer auth \<noteq> None \<longrightarrow>
            lines (server (snd (updateQuantity (backend_step catalog) auth lineId newQuantity wb))) =
              filter (\<lambda>l. item_id l \<noteq> lineId) (lines (server wb)))
       \<and> (list_all (\<lambda>l. 0 < quantity l) (lines (server wb)) \<longrightarrow>
            list_all (\<lambda>l. 0 < quantity l)
              (lines (server (snd (updateQuantity (backend_step catalog) auth lineId anyQuantity wb)))))"
proof -
  have delegate: "updateQuantity api auth lineId newQuantity w = removeFromCart api auth lineId w"
    using assms by (simp add: updateQuantity_def removeFromCart_def split: option.splits)
  obtain cs where cs: "calls (snd (removeFromCart api auth lineId w)) = calls w @ cs"
      "list_all (\<lambda>c. is_RemoveFromCart c \<or> is_GetCart c) cs"
    using calls_removeFromCart by blast
  have no_update: "list_all (\<lambda>c. \<not> is_UpdateCart c)
      (issued w (snd (updateQuantity api auth lineId newQuantity w)))"
    unfolding delegate issued_append[OF cs(1)]
    using cs(2) by (auto simp: list_all_iff is_GetCart_def is_RemoveFromCart_def)
  obtain ds where ds: "calls (snd (updateQuantity api auth lineId anyQuantity w)) = calls w @ ds"
      "list_all (\<lambda>c. is_RemoveFromCart c \<or> is_GetCart c \<or>
                    (is_UpdateCart c \<and> update_positive c)) ds"
    using calls_updateQuantity by blast
  have positive: "list_all update_positive
      (issued w (snd (updateQuantity api auth lineId anyQuantity w)))"
    unfolding issued_append[OF ds(1)]
    using ds(2)
    by (auto simp: list_all_iff update_positive_def is_GetCart_def is_RemoveFromCart_def)
  have removed: "bearer auth \<noteq> None \<longrightarrow>
      lines (server (snd (updateQuantity (backend_step catalog) auth lineId newQuantity wb))) =
        filter (\<lambda>l. item_id l \<noteq> lineId) (lines (server wb))"
    using assms by (simp add: lines_updateQuantity_backend)
  show ?thesis
    using delegate no_update positive removed positive_updateQuantity_backend by blast
qed

theorem updateQuantity_floor_witness:
  "(0::int) \<le> 0 \<and> bearer alice \<noteq> None
   \<and> list_all (\<lambda>l. 0 < quantity l) (lines (server one_line))
   \<and> updateQuantity (backend_step shelf) alice ''1'' 0 one_line
       = removeFromCart (backend_step shelf) alice ''1'' one_line
   \<and> issued one_line (snd (updateQuantity (backend_step shelf) alice ''1'' 0 one_line))
       = [RemoveFromCart ''1'' ''tok'', GetCart ''tok'']
   \<and> list_all update_positive (issued one_line (snd (updateQuantity (backend_step shelf) alice ''1'' 3 one_line)))
   \<and> lines (server (snd (updateQuantity (backend_step shelf) alice ''1'' 0 one_line))) = []
   \<and> cartItems (snd (updateQuantity (backend_step shelf) alice ''1'' 0 one_line)) = []
   \<and> list_all (\<lambda>l. 0 < quantity l)
        (lines (server (snd (updateQuantity (backend_step shelf) alice ''1'' 3 one_line))))"
proof -
  have h: "(0::int) \<le> 0" by simp
  have b: "bearer alice \<noteq> None" by (simp add: bearer_def alice_def)
  have p: "list_all (\<lambda>l. 0 < quantity l) (lines (server one_line))"
    by (simp add: one_line_def line7_def)
  note t = updateQuantity_floor[OF h, of "backend_step shelf" alice "''1''" one_line 3 shelf one_line]
  have d: "updateQuantity (backend_step shelf) alice ''1'' 0 one_line
       = removeFromCart (backend_step shelf) alice ''1'' one_line"
    using t by blast
  have i: "issued one_line (snd (updateQuantity (backend_step shelf) alice ''1'' 0 one_line))
       = [RemoveFromCart ''1'' ''tok'', GetCart ''tok'']"
    unfolding d issued_def eval_remove by (simp add: one_line_def)
  have l: "lines (server (snd (updateQuantity (backend_step shelf) alice ''1'' 0 one_line))) = []"
    by (simp add: d eval_remove)
  have c: "cartItems (snd (updateQuantity (backend_step shelf) alice ''1'' 0 one_line)) = []"
    by (simp add: d eval_remove)
  show ?thesis using h b p d i l c t by blast
qed

subsection \<open>Cart: adding a book twice\<close>
















subsection \<open>Cart: overlapping refreshes\<close>

lemma cartItems_refreshCart_resolve:
  "cartItems (refreshCart_resolve w r) =
     (case r of Body (Some response) \<Rightarrow> normalizeCartResponse response | _ \<Rightarrow> cartItems w)"
  by (simp add: refreshCart_resolve_def split: reply.splits option.splits)

lemma after_A_sent_eq:
  "after_A_sent =
     (Body (Some \<lparr>cart = None, items = Some [line7 2]\<rparr>),
      \<lparr>cartItems = [line7 1], cart_loading = True,
        server = \<lparr>lines = [line7 2], next_id = 2\<rparr>,
        calls = [UpdateCart ''1'' 2 ''tok'', GetCart ''tok'']\<rparr>)"
  by (simp add: after_A_sent_def call_def one_line_def line7_def other_body_def
      refreshCart_begin_def credentials_def bearer_def alice_def)

lemma after_B_sent_eq:
  "after_B_sent =
     (Body (Some \<lparr>cart = None, items = Some [line7 3]\<rparr>),
      \<lparr>cartItems = [line7 1], cart_loading = True,
        server = \<lparr>lines = [line7 3], next_id = 2\<rparr>,
        calls = [UpdateCart ''1'' 2 ''tok'', GetCart ''tok'',
                 UpdateCart ''1'' 3 ''tok'', GetCart ''tok'']\<rparr>)"
  unfolding after_B_sent_def after_A_sent_eq
  by (simp add: call_def line7_def other_body_def
      refreshCart_begin_def credentials_def bearer_def alice_def)

text \<open>
  C3, as stated, fails. A's refresh reply is the snapshot with quantity 2, B's the one with
  quantity 3. When B's reply settles first and A's after it, the local cart ends with A's
  quantity 2 while the service holds B's quantity 3: the older reply has overwritten the
  newer state.
\<close>

theorem stale_refresh_counterexample:
  "normalizeCartResponse \<lparr>cart = None, items = Some [line7 3]\<rparr> = [line7 3]
   \<and> reply_B = Body (Some \<lparr>cart = None, items = Some [line7 3]\<rparr>)
   \<and> cartItems (refreshCart_resolve before_replies reply_B) = [line7 3]
   \<and> cartItems (refreshCart_resolve (refreshCart_resolve before_replies reply_B) reply_A)
       = [line7 2]
   \<and> lines (server (refreshCart_resolve (refreshCart_resolve before_replies reply_B) reply_A))
       = [line7 3]
   \<and> line7 2 \<noteq> line7 3"
  by (simp add: reply_A_def reply_B_def before_replies_def after_A_sent_eq after_B_sent_eq
      cartItems_refreshCart_resolve normalizeCartResponse_def refreshCart_resolve_def line7_def)

text \<open>
  C3, amended. Refresh replies are applied in the order they settle, with no sequence
  number: after any sequence of settled replies the local cart is the normalisation of the
  last reply that carried a body (the cart is unchanged if none did), whichever request
  was issued first.
\<close>

theorem refresh_last_settled_wins:
  "cartItems (foldl refreshCart_resolve w rs) =
     (case last_body rs of
        None \<Rightarrow> cartItems w
      | Some response \<Rightarrow> normalizeCartResponse response)"
proof (induction rs arbitrary: w)
  case Nil
  show ?case by simp
next
  case (Cons r rs)
  show ?case
    by (simp add: Cons.IH cartItems_refreshCart_resolve split: option.splits reply.splits)
qed

subsection \<open>Chat: history and realtime frames\<close>

lemma chat_run_snoc: "chat_run messages (events @ [e]) = chat_step (chat_run messages events) e"
  by (simp add: chat_run_def)

lemma chat_run_frames:
  "list_all (\<lambda>e. \<not> is_history_array e) events \<Longrightarrow>
     chat_run messages events = messages @ chat_payloads events"
proof (induction events arbitrary: messages)
  case Nil
  show ?case by (simp add: chat_run_def)
next
  case (Cons e events)
  then have rest: "chat_run (chat_step messages e) events = chat_step messages e @ chat_payloads events"
    by simp
  have run: "chat_run messages (e # events) = chat_run (chat_step messages e) events"
    by (simp add: chat_run_def)
  from Cons.prems have noarr: "\<not> is_history_array e" by simp
  show ?case
  proof (cases e)
    case (Frame f)
    then show ?thesis using run rest by (cases f) simp_all
  next
    case (History h)
    with noarr have "chat_step messages e = messages"
      by (cases "(messages, h)" rule: fetchHistory_resolve.cases) auto
    then show ?thesis using run rest History by simp
  qed
qed

lemma chat_run_append:
  "chat_run messages (xs @ ys) = chat_run (chat_run messages xs) ys"
  by (simp add: chat_run_def)

text \<open>
  C5, as stated, fails. In the spec's own scenario (history \<open>[1, 2, 3]\<close>, the frame for
  2.5 arriving before the history request settles) the final list is \<open>[1, 2, 3]\<close>:
  message 2.5 is lost. When a frame repeats a message of the history after it settled,
  the message is listed twice and the timestamps are out of order.
\<close>

theorem chat_merge_counterexample:
  "chat_run [] [Frame (Envelope ''chat'' m25), History (HistoryBody (Some [m1, m2, m3]))]
     = [m1, m2, m3]
   \<and> m25 \<notin> set [m1, m2, m3]
   \<and> chat_run [] [History (HistoryBody (Some [m1, m2, m3])), Frame (Envelope ''chat'' m2)]
     = [m1, m2, m3, m2]
   \<and> \<not> distinct [m1, m2, m3, m2]
   \<and> \<not> sorted (map created_at [m1, m2, m3, m2])"
  by (simp add: chat_run_def m1_def m2_def m25_def m3_def message_def)

text \<open>
  C5, amended. A history array replaces the local list wholesale and every chat frame is
  appended in arrival order, with no deduplication and no sort: when no history array
  arrives after a given one, the final list is that array followed by the payloads of the
  chat frames that arrived after it (whatever came before it is discarded); when no
  history array arrives at all, the chat payloads are appended to the initial list.
\<close>

theorem chat_history_replaces:
  assumes "list_all (\<lambda>e. \<not> is_history_array e) later"
  shows "chat_run messages (earlier @ History (HistoryBody (Some data)) # later)
           = data @ chat_payloads later
       \<and> chat_run messages later = messages @ chat_payloads later"
proof -
  have "chat_run messages (earlier @ History (HistoryBody (Some data)) # later)
          = chat_run data later"
    by (simp add: chat_run_def)
  then show ?thesis using chat_run_frames[OF assms] by simp
qed

theorem chat_history_replaces_witness:
  "list_all (\<lambda>e. \<not> is_history_array e) [Frame (Envelope ''chat'' m3), Frame NotJson]
   \<and> chat_run [] ([Frame (Envelope ''chat'' m25)] @
        History (HistoryBody (Some [m1, m2])) # [Frame (Envelope ''chat'' m3), Frame NotJson])
      = [m1, m2, m3]
   \<and> chat_run [m1] [Frame (Envelope ''chat'' m3), Frame NotJson] = [m1, m3]"
proof -
  have h: "list_all (\<lambda>e. \<not> is_history_array e) [Frame (Envelope ''chat'' m3), Frame NotJson]"
    by simp
  show ?thesis
    using h chat_history_replaces[OF h, of "[]" "[Frame (Envelope ''chat'' m25)]" "[m1, m2]"]
      chat_history_replaces[OF h, of "[m1]" "[]" "[]"]
    by simp
qed

subsection \<open>Realtime sockets after a rejected connection\<close>

lemma ws_step_suspended:
  "wsUnauthorizedRef s \<Longrightarrow>
     wsUnauthorizedRef (ws_step s e) \<and> ws_opened (ws_step s e) = ws_opened s"
  by (cases e) (auto simp: ws_effect_def split: option.splits)

lemma ws_run_suspended:
  "wsUnauthorizedRef s \<Longrightarrow>
     wsUnauthorizedRef (ws_run s events) \<and> ws_opened (ws_run s events) = ws_opened s"
proof (induction events arbitrary: s)
  case Nil
  then show ?case by (simp add: ws_run_def)
next
  case (Cons e events)
  have step: "wsUnauthorizedRef (ws_step s e)" "ws_opened (ws_step s e) = ws_opened s"
    using ws_step_suspended[OF Cons.prems] by simp_all
  have "ws_run s (e # events) = ws_run (ws_step s e) events"
    by (simp add: ws_run_def)
  then show ?case using Cons.IH[OF step(1)] step(2) by simp
qed

lemma chat_cycle:
  "credentials auth = Some t \<Longrightarrow>
     chat_opened (chat_timer auth (chat_onclose s)) = chat_opened s @ [t]"
  by (simp add: chat_timer_def chat_onclose_def connectWebSocket_def bearer_of_credentials)

lemma chat_retries_unbounded:
  "credentials auth = Some t \<Longrightarrow>
     chat_opened (((\<lambda>s. chat_timer auth (chat_onclose s)) ^^ n) s) = chat_opened s @ replicate n t"
proof (induction n)
  case 0
  show ?case by simp
next
  case (Suc n)
  then show ?case
    by (simp add: chat_cycle replicate_append_same)
qed

text \<open>
  The notification socket of \<open>AppContent\<close> has a guard: once a socket error has set
  \<open>wsUnauthorizedRef\<close>, the effect constructs no socket, whatever events follow.
\<close>

lemma ws_error_suspends:
  "wsUnauthorizedRef (ws_run (ws_step s OnError) events)
   \<and> ws_opened (ws_run (ws_step s OnError) events) = ws_opened s"
proof -
  have "wsUnauthorizedRef (ws_step s OnError)" "ws_opened (ws_step s OnError) = ws_opened s"
    by simp_all
  then show ?thesis using ws_run_suspended[of "ws_step s OnError" events] by simp
qed

text \<open>
  C6. A connection attempt that is rejected for authorization should suspend the channel:
  no automatic reconnect until a new session. The chat socket does not: with the session
  unchanged, a connection the server rejects reaches the widget as \<open>onclose\<close>, which
  arms the 3 s timer, and when the timer fires \<open>connectWebSocket\<close> constructs the next
  socket with the same token. Two rejections in a row give three sockets.
\<close>

theorem chat_socket_retries_after_rejection:
  "chat_opened (connectWebSocket alice chat_idle) = [''tok'']
   \<and> chat_opened (chat_timer alice (chat_onclose (connectWebSocket alice chat_idle)))
       = [''tok'', ''tok'']
   \<and> chat_opened (chat_timer alice (chat_onclose
        (chat_timer alice (chat_onclose (connectWebSocket alice chat_idle)))))
       = [''tok'', ''tok'', ''tok'']"
  by (simp add: connectWebSocket_def chat_timer_def chat_onclose_def chat_idle_def
      credentials_def bearer_def alice_def)

lemma ws_connects_once:
  "ws_opened (ws_run ws_initial [EffectRun True]) = [''tok'']
   \<and> ws_opened (ws_run ws_initial
        [EffectRun True, OnError, OnClose, Cleanup, EffectRun True,
         SetToken None, EffectRun True, SetToken (Some ''new''), EffectRun True]) = [''tok'']
   \<and> ws_opened (ws_run ws_initial
        [EffectRun True, OnOpen, OnClose, Cleanup, EffectRun True]) = [''tok'', ''tok'']"
  by (simp add: ws_run_def ws_initial_def ws_effect_def)

subsection \<open>Catalog: page reset\<close>

lemma page_of_query:
  "map_of (catalog_query prev c) ''page'' =
     Some (int_to_string (if currentPage c \<noteq> 0 then currentPage c else 1))"
  by (simp add: catalog_query_def buildQueryString_def as_params_def handleFilterChange_def
      filterParams_def)

lemma one_to_string: "int_to_string 1 = ''1''"
  by (simp add: int_to_string_def nat_to_string.simps digit_char_def)

lemma filter_handlers_reset_page:
  "map_of (catalog_query prev (handleSortChange v c)) ''page'' = Some ''1''"
  "map_of (catalog_query prev (handleCategoryChange cs c)) ''page'' = Some ''1''"
  "map_of (catalog_query prev (handlePriceChange rng c)) ''page'' = Some ''1''"
  "map_of (catalog_query prev (handleRatingChange r c)) ''page'' = Some ''1''"
  "map_of (catalog_query prev (handleLetterChange letter c)) ''page'' = Some ''1''"
  "map_of (catalog_query prev (handleClearFilters c)) ''page'' = Some ''1''"
  by (simp_all add: page_of_query one_to_string handleSortChange_def handleCategoryChange_def
      handlePriceChange_def handleRatingChange_def handleLetterChange_def handleClearFilters_def)

text \<open>
  C7. Changing any filter field should put \<open>page = 1\<close> into the next query. The five
  handlers and the clear action do (\<open>filter_handlers_reset_page\<close>); a change of the
  search text does not: from page 3 of the category \<open>fiction\<close>, typing \<open>tolkien\<close> in
  the search box issues a query with \<open>page = 3\<close>.
\<close>

theorem search_change_keeps_page:
  "catalog_query initial_filters (onSearchChange ''tolkien'' fiction_page3) =
     [(''page'', ''3''), (''limit'', ''12''), (''categories'', ''fiction''),
      (''min_price'', ''0''), (''max_price'', ''500000''), (''search'', ''tolkien''),
      (''sort_by'', ''created_at''), (''sort_order'', ''desc'')]
   \<and> map_of (catalog_query initial_filters (handleCategoryChange [''history''] fiction_page3))
        ''page'' = Some ''1''"
  by (simp add: catalog_query_def buildQueryString_def as_params_def handleFilterChange_def
      filterParams_def onSearchChange_def handleCategoryChange_def fiction_page3_def
      initial_filters_def ITEMS_PER_PAGE_def int_to_string_def nat_to_string.simps digit_char_def)

subsection \<open>Session: restoring a persisted session\<close>

lemma restore_missing:
  "storedToken = None \<or> storedToken = Some [] \<or> storedUser = None \<or> storedUser = Some [] \<Longrightarrow>
     restore storedToken storedUser parsed mounted = Inr (mounted\<lparr>auth_loading := False\<rparr>)
     \<and> credentials (mounted\<lparr>auth_loading := False\<rparr>) = None"
  by (auto simp: restore_def credentials_def mounted_def)

lemma restore_well_formed:
  "t \<noteq> [] \<Longrightarrow> u \<noteq> [] \<Longrightarrow>
     restore (Some t) (Some u) (Some v) s = Inr (s\<lparr>token := Some t, user := v, auth_loading := False\<rparr>)"
  by (simp add: restore_def)

text \<open>
  C9. \<open>restore\<close> should never throw on malformed persisted data. With a token stored
  and a stored user that is not JSON (\<open>{oops\<close>), \<open>JSON.parse\<close> throws and the
  \<open>SyntaxError\<close> leaves the effect: the store does not start unauthenticated, it fails.
\<close>

theorem restore_throws_on_malformed_user:
  "restore (Some ''tok'') (Some ''{oops'') None mounted = Inl SyntaxError"
  by (simp add: restore_def)

subsection \<open>Catalog: books without a category\<close>

lemma normalizeBook_None:
  "(normalizeBook now categoryMap bk = None) = (\<not> has_category (ab_category bk))"
  by (cases "ab_category bk") (simp_all add: normalizeBook_def Let_def)

lemma normalizeBook_id:
  "normalizeBook now categoryMap bk = Some nb \<Longrightarrow> bc_id nb = ab_id bk"
  by (auto simp: normalizeBook_def Let_def split: option.splits)

lemma map_filter_ids:
  "map bc_id (List.map_filter (normalizeBook now m) bs) =
     map ab_id (filter (\<lambda>bk. has_category (ab_category bk)) bs)"
proof (induction bs)
  case Nil
  show ?case by simp
next
  case (Cons bk bs)
  show ?case
  proof (cases "normalizeBook now m bk")
    case None
    then have "\<not> has_category (ab_category bk)" using normalizeBook_None by blast
    then show ?thesis using None Cons.IH by simp
  next
    case (Some nb)
    then have "has_category (ab_category bk)" using normalizeBook_None[of now m bk] by simp
    then show ?thesis using Some Cons.IH normalizeBook_id[OF Some]
      by simp
  qed
qed

text \<open>
  C10. \<open>normalizeBook\<close> returns \<open>null\<close> exactly for a book whose category field is
  neither a string nor an object (\<open>null\<close>, missing, a number, a boolean), and such a book
  is filtered out of the list given to \<open>setBooks\<close>: the books that remain are, in order,
  those whose category field is a string or an object.
\<close>

theorem books_without_category_dropped:
  "(normalizeBook now categoryMap bk = None) = (\<not> has_category (ab_category bk))
   \<and> normalizeBook now categoryMap (bk\<lparr>ab_category := CategoryNull\<rparr>) = None
   \<and> normalizeBook now categoryMap (bk\<lparr>ab_category := CategoryUndefined\<rparr>) = None
   \<and> map bc_id (normalizedBooks now categories booksArray) =
       map ab_id (filter (\<lambda>b. has_category (ab_category b)) booksArray)"
  by (simp add: normalizeBook_None normalizedBooks_def map_filter_ids)

lemma books_without_category_example:
  "map bc_id (normalizedBooks 0 []
     [sample_book ''1'' (CategoryString ''Sci Fi''), sample_book ''2'' CategoryNull,
      sample_book ''3'' CategoryUndefined,
      sample_book ''4'' (CategoryObject \<lparr>ac_id = JNum 9, ac_name = ''History'', ac_slug = ''history'',
         ac_description = None, ac_created_at = None, ac_updated_at = None\<rparr>)])
   = [''1'', ''4'']"
  by (simp add: normalizedBooks_def normalizeBook_def sample_book_def
      build_categoryMap_def)

lemma unknown_string_category_kept:
  "map (cat_slug \<circ> bc_category) (normalizedBooks 0 [] [sample_book ''1'' (CategoryString ''Sci  Fi'')])
   = [''sci-fi'']"
  by (simp add: normalizedBooks_def normalizeBook_def sample_book_def
      build_categoryMap_def slug_of_def lower_char_def is_space_def)

end
